theory Spec2Isabelle
  imports Main
begin

section \<open>JavaScript values used by lens-proxy.ts\<close>

text \<open>
  Strings are character lists. The three string methods the proxy calls are
  \<^verbatim>\<open>startsWith\<close>, \<^verbatim>\<open>replace\<close> with a string pattern (only the first
  occurrence is replaced) and \<^verbatim>\<open>includes\<close>.
\<close>

definition startsWith :: "string \<Rightarrow> string \<Rightarrow> bool" where
  "startsWith s p = (take (length p) s = p)"

fun str_replace :: "string \<Rightarrow> string \<Rightarrow> string \<Rightarrow> string" where
  "str_replace [] p r = (if p = [] then r else [])"
| "str_replace (c # cs) p r =
     (if startsWith (c # cs) p then r @ drop (length p) (c # cs)
      else c # str_replace cs p r)"

fun str_includes :: "string \<Rightarrow> string \<Rightarrow> bool" where
  "str_includes [] p = (p = [])"
| "str_includes (c # cs) p = (startsWith (c # cs) p \<or> str_includes cs p)"

text \<open>
  Truthiness of the two kinds of optional value the proxy tests: a number that may be
  \<^verbatim>\<open>undefined\<close> (\<^verbatim>\<open>res.statusCode\<close>, a ledger count) and a string that may be
  \<^verbatim>\<open>undefined\<close> (the custom server-error message). \<^verbatim>\<open>0\<close> and the empty string
  are falsy.
\<close>

definition truthy_num :: "nat option \<Rightarrow> bool" where
  "truthy_num v = (case v of None \<Rightarrow> False | Some n \<Rightarrow> n \<noteq> 0)"

definition truthy_str :: "string option \<Rightarrow> bool" where
  "truthy_str v = (case v of None \<Rightarrow> False | Some s \<Rightarrow> s \<noteq> [])"

text \<open>\<^verbatim>\<open>v || 0\<close> on an optional number.\<close>

definition or_zero :: "nat option \<Rightarrow> nat" where
  "or_zero v = (if truthy_num v then the v else 0)"

text \<open>\<^verbatim>\<open>v >= 500\<close> on an optional number: \<^verbatim>\<open>undefined >= 500\<close> is false.\<close>

definition ge_500 :: "nat option \<Rightarrow> bool" where
  "ge_500 v = (case v of None \<Rightarrow> False | Some n \<Rightarrow> 500 \<le> n)"

text \<open>The result of awaiting a promise: it resolves to a value or rejects.\<close>

datatype 'a awaited = Resolved 'a | Rejected string

section \<open>Requests, responses and the collaborators\<close>

text \<open>
  \<^verbatim>\<open>http.IncomingMessage\<close>: the fields the proxy reads and writes. A header that is
  not present is \<^verbatim>\<open>undefined\<close>.
\<close>

record request =
  "method" :: string
  headers :: "string \<rightharpoonup> string"
  url :: string

text \<open>
  \<^verbatim>\<open>http.ServerResponse\<close>: its status code (\<open>None\<close> for \<^verbatim>\<open>undefined\<close>) and, in
  order, the \<^verbatim>\<open>writeHead\<close> and \<^verbatim>\<open>end\<close> calls made on it, by a handler or by the
  transport. The head is out (\<^verbatim>\<open>res.headersSent\<close>) once one of them has been made.
  An \<^verbatim>\<open>end\<close> on a response already ended is recorded like the first.
\<close>

datatype res_call =
    WriteHead nat "(string \<times> string) list"
  | End "string option"

record response =
  statusCode :: "nat option"
  written :: "res_call list"

definition res_writeHead :: "nat \<Rightarrow> (string \<times> string) list \<Rightarrow> response \<Rightarrow> response" where
  "res_writeHead code hs res =
     res\<lparr>statusCode := Some code, written := written res @ [WriteHead code hs]\<rparr>"

definition res_end :: "string option \<Rightarrow> response \<Rightarrow> response" where
  "res_end data res = res\<lparr>written := written res @ [End data]\<rparr>"

definition headersSent :: "response \<Rightarrow> bool" where
  "headersSent res = (written res \<noteq> [])"

text \<open>
  Modelled from the spec: the Proxy Target (\<^verbatim>\<open>httpProxy.ServerOptions\<close>), "a resolved
  (scheme, host, port, path, headers) description of the concrete backend endpoint".
\<close>

record proxy_target =
  t_scheme :: string
  t_host :: string
  t_port :: nat
  t_path :: string
  t_headers :: "(string \<times> string) list"

text \<open>
  Modelled from the spec: the Context Handler of \<^verbatim>\<open>./context-handler\<close>, with
  \<^verbatim>\<open>ensureServer()\<close> ("success | failure"), \<^verbatim>\<open>getApiTarget(isWatchRequest)\<close>
  ("ProxyTarget | failure") and \<^verbatim>\<open>proxyServerError()\<close> ("text | absent"); and the
  Cluster Context that owns it.
\<close>

record context_handler =
  ensureServer :: "unit awaited"
  getApiTarget :: "bool \<Rightarrow> proxy_target awaited"
  proxyServerError :: "string option"

record cluster =
  clusterId :: string
  contextHandler :: context_handler

text \<open>
  What the proxy is built over: the path prefix \<^verbatim>\<open>apiPrefix.KUBE_BASE\<close> of
  \<^verbatim>\<open>../common/vars\<close> and the lookup \<^verbatim>\<open>clusterManager.getClusterForRequest\<close>.
  Modelled from the spec: the lookup is "a pure/cheap lookup" from the request to a
  Cluster Context or nothing.
\<close>

record env =
  KUBE_BASE :: string
  getClusterForRequest :: "request \<Rightarrow> cluster option"

section \<open>The state of the proxy\<close>

text \<open>
  Request and response objects are shared between the handlers, the proxy transport and
  the retry closures, so they live in a store and are passed by reference. A pending
  timeout holds what its closure captured: the ledger key and the count read when it
  was scheduled, and the references to the request and the response.
\<close>

type_synonym ref = nat

record timer =
  delay :: nat
  retryCounterKey :: string
  retryCount :: nat
  timer_req :: ref
  timer_res :: ref

text \<open>Calls into the collaborators, in the order they are made.\<close>

datatype call =
    EnsureServer context_handler
  | GetApiTarget context_handler request bool
  | ProxyWeb ref ref proxy_target
  | RouterRoute cluster ref ref

text \<open>
  \<open>closed\<close> and \<open>retryCounters\<close> are the fields of \<^verbatim>\<open>LensProxy\<close>; \<open>reqs\<close> and
  \<open>ress\<close> are the store; \<open>timers\<close> are the timeouts set with \<^verbatim>\<open>setTimeout\<close>, in
  order; \<open>calls\<close> is the trace of collaborator calls. \<open>GetApiTarget\<close> carries the
  request object as it is when the call is made. \<open>uncaught\<close> are the exceptions
  thrown out of a listener, in order: nothing in \<^verbatim>\<open>lens-proxy.ts\<close> catches them.
\<close>

record world =
  closed :: bool
  retryCounters :: "string \<rightharpoonup> nat"
  reqs :: "ref \<Rightarrow> request"
  ress :: "ref \<Rightarrow> response"
  timers :: "timer list"
  calls :: "call list"
  uncaught :: "string list"

text \<open>The template literal \<^verbatim>\<open>`${req.headers.host}${req.url}`\<close>.\<close>

definition requestKey :: "request \<Rightarrow> string" where
  "requestKey req =
     (case headers req ''host'' of None \<Rightarrow> ''undefined'' | Some h \<Rightarrow> h) @ url req"

section \<open>The handlers\<close>

text \<open>
  Each handler takes the state and returns the state it leaves. The calls to
  \<^verbatim>\<open>logger\<close> change nothing and are left out. Ledger counts are natural numbers:
  the only values stored are \<open>count + 1\<close> for a count below 20.

  \<^verbatim>\<open>getProxyTarget\<close>: \<open>Resolved None\<close> is the \<^verbatim>\<open>undefined\<close> it returns off the
  prefix.
\<close>

definition getProxyTarget ::
  "env \<Rightarrow> world \<Rightarrow> ref \<Rightarrow> context_handler \<Rightarrow> proxy_target option awaited \<times> world"
  where
  "getProxyTarget e w rq ch =
     (let prefix = KUBE_BASE e; req = reqs w rq in
      if startsWith (url req) prefix then
        let req1 = req\<lparr>headers := (headers req)(''authorization'' := None)\<rparr>;
            req2 = req1\<lparr>url := str_replace (url req1) prefix []\<rparr>;
            isWatchRequest = str_includes (url req2) ''watch='';
            w' = w\<lparr>reqs := (reqs w)(rq := req2),
                   calls := calls w @ [GetApiTarget ch req2 isWatchRequest]\<rparr>
        in (case getApiTarget ch isWatchRequest of
              Resolved t \<Rightarrow> (Resolved (Some t), w')
            | Rejected err \<Rightarrow> (Rejected err, w'))
      else (Resolved None, w))"

text \<open>\<^verbatim>\<open>handleRequest\<close>. A rejected \<^verbatim>\<open>await\<close> rejects the promise it returns.\<close>

definition handleRequest :: "env \<Rightarrow> world \<Rightarrow> ref \<Rightarrow> ref \<Rightarrow> unit awaited \<times> world" where
  "handleRequest e w rq rs =
     (case getClusterForRequest e (reqs w rq) of
        None \<Rightarrow>
          (Resolved (),
           w\<lparr>ress := (ress w)(rs := res_end None ((ress w rs)\<lparr>statusCode := Some 503\<rparr>))\<rparr>)
      | Some cl \<Rightarrow>
          let ch = contextHandler cl;
              w1 = w\<lparr>calls := calls w @ [EnsureServer ch]\<rparr>
          in
          (case ensureServer ch of
             Rejected err \<Rightarrow> (Rejected err, w1)
           | Resolved _ \<Rightarrow>
               (case getProxyTarget e w1 rq ch of
                  (Rejected err, w2) \<Rightarrow> (Rejected err, w2)
                | (Resolved (Some proxyTarget), w2) \<Rightarrow>
                    (Resolved (), w2\<lparr>calls := calls w2 @ [ProxyWeb rq rs proxyTarget]\<rparr>)
                | (Resolved None, w2) \<Rightarrow>
                    (Resolved (), w2\<lparr>calls := calls w2 @ [RouterRoute cl rq rs]\<rparr>))))"

text \<open>
  The \<^verbatim>\<open>proxyRes\<close> listener of \<^verbatim>\<open>createProxy\<close>. \<open>reset_retry\<close> is its second
  half, from the test of the method on, reached unless the listener has returned after
  writing the custom message. The transport raises \<^verbatim>\<open>proxyRes\<close> when the head of
  the backend's response arrives, before it puts anything on the response.
\<close>

definition reset_retry :: "world \<Rightarrow> ref \<Rightarrow> world" where
  "reset_retry w rq =
     (let req = reqs w rq in
      if method req \<noteq> ''GET'' then w
      else
        let key = requestKey req in
        if key \<in> dom (retryCounters w)
        then w\<lparr>retryCounters := (retryCounters w)(key := None)\<rparr>
        else w)"

definition on_proxyRes :: "env \<Rightarrow> world \<Rightarrow> nat \<Rightarrow> ref \<Rightarrow> ref \<Rightarrow> world" where
  "on_proxyRes e w proxyRes_statusCode rq rs =
     (if proxyRes_statusCode = 502 then
        (case getClusterForRequest e (reqs w rq) of
           None \<Rightarrow> reset_retry w rq
         | Some cl \<Rightarrow>
             if truthy_str (proxyServerError (contextHandler cl)) then
               w\<lparr>ress := (ress w)(rs :=
                   res_end (proxyServerError (contextHandler cl))
                     (res_writeHead proxyRes_statusCode [(''Content-Type'', ''text/plain'')]
                        (ress w rs)))\<rparr>
             else reset_retry w rq)
      else reset_retry w rq)"

text \<open>
  The \<^verbatim>\<open>error\<close> listener of \<^verbatim>\<open>createProxy\<close>. \<^verbatim>\<open>setTimeout\<close> appends to the
  timeouts; the listener then goes on to write the generic failure response.
  \<^verbatim>\<open>res.writeHead\<close> throws \<^verbatim>\<open>ERR_HTTP_HEADERS_SENT\<close> when the head is out; the
  listener has no \<^verbatim>\<open>try\<close>, so \<^verbatim>\<open>res.end\<close> is then not reached and the exception
  leaves the listener, after the timeout was set.
\<close>

definition on_error :: "world \<Rightarrow> ref \<Rightarrow> ref \<Rightarrow> proxy_target option \<Rightarrow> world" where
  "on_error w rq rs target =
     (if closed w then w
      else
        let req = reqs w rq; res = ress w rs;
            w1 =
              (if target \<noteq> None then
                 if method req = ''GET'' \<and> (\<not> truthy_num (statusCode res) \<or> ge_500 (statusCode res))
                 then
                   let key = requestKey req;
                       cnt = or_zero (retryCounters w key);
                       timeoutMs = cnt * 250
                   in if cnt < 20
                      then w\<lparr>timers := timers w @
                             [\<lparr>delay = timeoutMs, retryCounterKey = key, retryCount = cnt,
                               timer_req = rq, timer_res = rs\<rparr>]\<rparr>
                      else w
                 else w
               else w)
        in if headersSent (ress w1 rs)
           then w1\<lparr>uncaught := uncaught w1 @ [''ERR_HTTP_HEADERS_SENT'']\<rparr>
           else w1\<lparr>ress := (ress w1)(rs :=
                  res_end (Some ''Oops, something went wrong.'')
                    (res_writeHead 500 [(''Content-Type'', ''text/plain'')] (ress w1 rs)))\<rparr>)"

text \<open>
  The closure given to \<^verbatim>\<open>setTimeout\<close>, run on the state the proxy is in when
  the timeout fires: it reads the request and the response through the references it
  holds.
\<close>

definition retry :: "env \<Rightarrow> world \<Rightarrow> timer \<Rightarrow> unit awaited \<times> world" where
  "retry e w tm =
     handleRequest e
       (w\<lparr>retryCounters := (retryCounters w)(retryCounterKey tm \<mapsto> retryCount tm + 1)\<rparr>)
       (timer_req tm) (timer_res tm)"

text \<open>\<^verbatim>\<open>close\<close>.\<close>

definition close :: "world \<Rightarrow> world" where
  "close w = w\<lparr>closed := True\<rparr>"

section \<open>A concrete cluster, requests and states\<close>

text \<open>
  One registered cluster, found by the host header \<open>c1.localhost\<close>, whose backend is
  ready and which has a custom server-error message; requests and states built from
  their parts. The theorems below are exercised on them.
\<close>

definition ex_target :: proxy_target where
  "ex_target =
     \<lparr>t_scheme = ''http'', t_host = ''127.0.0.1'', t_port = 9191, t_path = ''/'',
      t_headers = []\<rparr>"

definition ex_handler :: context_handler where
  "ex_handler =
     \<lparr>ensureServer = Resolved (), getApiTarget = (\<lambda>_. Resolved ex_target),
      proxyServerError = Some ''Cluster is starting''\<rparr>"

definition ex_cluster :: cluster where
  "ex_cluster = \<lparr>clusterId = ''c1'', contextHandler = ex_handler\<rparr>"

definition ex_env :: env where
  "ex_env =
     \<lparr>KUBE_BASE = ''/api-kube'',
      getClusterForRequest =
        (\<lambda>req. if headers req ''host'' = Some ''c1.localhost'' then Some ex_cluster else None)\<rparr>"

definition ex_request :: "string \<Rightarrow> string \<Rightarrow> string \<Rightarrow> request" where
  "ex_request m h u =
     \<lparr>method = m, headers = [''host'' \<mapsto> h, ''authorization'' \<mapsto> ''Bearer t''], url = u\<rparr>"

definition ex_world :: "request \<Rightarrow> nat option \<Rightarrow> (string \<rightharpoonup> nat) \<Rightarrow> bool \<Rightarrow> world" where
  "ex_world req status ledger cl =
     \<lparr>closed = cl, retryCounters = ledger, reqs = (\<lambda>_. req),
      ress = (\<lambda>_. \<lparr>statusCode = status, written = []\<rparr>), timers = [], calls = [],
      uncaught = []\<rparr>"

definition ex_env_by_path :: env where
  "ex_env_by_path =
     \<lparr>KUBE_BASE = ''/api-kube'',
      getClusterForRequest =
        (\<lambda>req. if startsWith (url req) ''/api-kube'' then Some ex_cluster else None)\<rparr>"

text \<open>
  A GET on the API prefix as it arrives (\<open>ex_api\<close>); the same request as the error
  listener sees it after dispatch, with 3 retries counted and no status
  (\<open>ex_failing\<close>) or the status 503 and the head not out (\<open>ex_unready\<close>), with 20
  counted and the status 500 (\<open>ex_capped\<close>), the same after \<^verbatim>\<open>close()\<close>
  (\<open>ex_closed\<close>) and with the generic 500 already written and ended
  (\<open>ex_capped_sent\<close>), and with none counted, the status 503 and the head not out
  (\<open>ex_first\<close>); a POST on the counted key (\<open>ex_post\<close>); a GET off the prefix for
  the registered cluster (\<open>ex_app\<close>) and for an unknown host (\<open>ex_unknown\<close>); the
  timeout the first failure of \<open>ex_api\<close> sets.
\<close>

definition ex_api :: world where
  "ex_api =
     ex_world (ex_request ''GET'' ''c1.localhost'' ''/api-kube/api/v1/pods?watch=1'') None
       Map.empty False"

definition ex_failing :: world where
  "ex_failing =
     ex_world (ex_request ''GET'' ''c1.localhost'' ''/api/v1/pods'') None
       [''c1.localhost/api/v1/pods'' \<mapsto> 3] False"

definition ex_capped :: world where
  "ex_capped =
     ex_world (ex_request ''GET'' ''c1.localhost'' ''/api/v1/pods'') (Some 500)
       [''c1.localhost/api/v1/pods'' \<mapsto> 20] False"

definition ex_closed :: world where
  "ex_closed = close ex_capped"

definition ex_capped_sent :: world where
  "ex_capped_sent =
     ex_capped\<lparr>ress := (\<lambda>_.
       \<lparr>statusCode = Some 500,
        written = [WriteHead 500 [(''Content-Type'', ''text/plain'')],
                   End (Some ''Oops, something went wrong.'')]\<rparr>)\<rparr>"

definition ex_unready :: world where
  "ex_unready =
     ex_world (ex_request ''GET'' ''c1.localhost'' ''/api/v1/pods'') (Some 503)
       [''c1.localhost/api/v1/pods'' \<mapsto> 3] False"

definition ex_first :: world where
  "ex_first =
     ex_world (ex_request ''GET'' ''c1.localhost'' ''/api/v1/pods'') (Some 503) Map.empty
       False"

definition ex_post :: world where
  "ex_post =
     ex_world (ex_request ''POST'' ''c1.localhost'' ''/api/v1/pods'') None
       [''c1.localhost/api/v1/pods'' \<mapsto> 3] False"

definition ex_app :: world where
  "ex_app =
     ex_world (ex_request ''GET'' ''c1.localhost'' ''/app/dashboard'') None Map.empty False"

definition ex_unknown :: world where
  "ex_unknown =
     ex_world (ex_request ''GET'' ''nowhere.localhost'' ''/app/dashboard'') None
       [''nowhere.localhost/app/dashboard'' \<mapsto> 3] False"

definition ex_retry_timer :: timer where
  "ex_retry_timer =
     \<lparr>delay = 0, retryCounterKey = ''c1.localhost/api/v1/pods?watch=1'', retryCount = 0,
      timer_req = 0, timer_res = 1\<rparr>"

lemmas ex_defs =
  ex_target_def ex_handler_def ex_cluster_def ex_env_def ex_request_def ex_world_def

section \<open>Facts about the string methods\<close>

lemma startsWith_iff: "startsWith s p \<longleftrightarrow> (\<exists>t. s = p @ t)"
  unfolding startsWith_def
  by (metis append_eq_conv_conj append_take_drop_id)

text \<open>On a string that starts with the pattern, the first occurrence is the one in front.\<close>

lemma str_replace_startsWith:
  "startsWith s p \<Longrightarrow> str_replace s p r = r @ drop (length p) s"
  by (cases s) (auto simp: startsWith_def)

text \<open>\<open>str_includes\<close> is the substring test.\<close>

lemma str_includes_iff: "str_includes s p \<longleftrightarrow> (\<exists>a b. s = a @ p @ b)"
proof (induction s)
  case Nil
  then show ?case by auto
next
  case (Cons c cs)
  show ?case
  proof
    assume "str_includes (c # cs) p"
    then consider "startsWith (c # cs) p" | "str_includes cs p" by auto
    then show "\<exists>a b. c # cs = a @ p @ b"
    proof cases
      case 1
      then obtain t where "c # cs = p @ t" by (auto simp: startsWith_iff)
      then have "c # cs = [] @ p @ t" by simp
      then show ?thesis by blast
    next
      case 2
      then obtain a b where "cs = a @ p @ b" using Cons.IH by auto
      then have "c # cs = (c # a) @ p @ b" by simp
      then show ?thesis by blast
    qed
  next
    assume "\<exists>a b. c # cs = a @ p @ b"
    then obtain a b where ab: "c # cs = a @ p @ b" by auto
    show "str_includes (c # cs) p"
    proof (cases a)
      case Nil
      then have "startsWith (c # cs) p" using ab by (auto simp: startsWith_iff)
      then show ?thesis by simp
    next
      case (Cons x a')
      then have "cs = a' @ p @ b" using ab by simp
      then have "str_includes cs p" using Cons.IH by blast
      then show ?thesis by simp
    qed
  qed
qed

section \<open>What each handler changes\<close>

lemma getProxyTarget_off_prefix:
  "\<not> startsWith (url (reqs w rq)) (KUBE_BASE e) \<Longrightarrow>
   getProxyTarget e w rq ch = (Resolved None, w)"
  by (simp add: getProxyTarget_def)

lemma getProxyTarget_on_prefix:
  assumes "startsWith (url (reqs w rq)) (KUBE_BASE e)"
  shows "getProxyTarget e w rq ch =
    (let req' = (reqs w rq)\<lparr>headers := (headers (reqs w rq))(''authorization'' := None),
                             url := drop (length (KUBE_BASE e)) (url (reqs w rq))\<rparr>;
         watch = str_includes (url req') ''watch=''
     in (case getApiTarget ch watch of
           Resolved t \<Rightarrow> Resolved (Some t) | Rejected err \<Rightarrow> Rejected err,
         w\<lparr>reqs := (reqs w)(rq := req'), calls := calls w @ [GetApiTarget ch req' watch]\<rparr>))"
  using assms
  by (simp add: getProxyTarget_def Let_def str_replace_startsWith split: awaited.splits)

lemma handleRequest_frame:
  "closed (snd (handleRequest e w rq rs)) = closed w"
  "retryCounters (snd (handleRequest e w rq rs)) = retryCounters w"
  "timers (snd (handleRequest e w rq rs)) = timers w"
  by (auto simp: handleRequest_def Let_def getProxyTarget_def
      split: option.splits awaited.splits prod.splits)

lemma handleRequest_off_prefix:
  assumes "\<not> startsWith (url (reqs w rq)) (KUBE_BASE e)"
  shows "handleRequest e w rq rs =
     (case getClusterForRequest e (reqs w rq) of
        None \<Rightarrow>
          (Resolved (),
           w\<lparr>ress := (ress w)(rs := res_end None ((ress w rs)\<lparr>statusCode := Some 503\<rparr>))\<rparr>)
      | Some cl \<Rightarrow>
          (case ensureServer (contextHandler cl) of
             Rejected err \<Rightarrow>
               (Rejected err, w\<lparr>calls := calls w @ [EnsureServer (contextHandler cl)]\<rparr>)
           | Resolved _ \<Rightarrow>
               (Resolved (),
                w\<lparr>calls := calls w @
                    [EnsureServer (contextHandler cl), RouterRoute cl rq rs]\<rparr>)))"
  using assms
  by (simp add: handleRequest_def Let_def getProxyTarget_def split: option.splits awaited.splits)

lemma handleRequest_on_prefix:
  assumes "startsWith (url (reqs w rq)) (KUBE_BASE e)"
    and "getClusterForRequest e (reqs w rq) = Some cl"
    and "ensureServer (contextHandler cl) = Resolved ()"
  shows "reqs (snd (handleRequest e w rq rs)) rq =
           (reqs w rq)\<lparr>headers := (headers (reqs w rq))(''authorization'' := None),
                       url := drop (length (KUBE_BASE e)) (url (reqs w rq))\<rparr>"
  using assms
  by (simp add: handleRequest_def Let_def getProxyTarget_on_prefix split: awaited.splits)

lemma reset_retry_ledger:
  "retryCounters (reset_retry w rq) =
     (if method (reqs w rq) = ''GET''
      then (retryCounters w)(requestKey (reqs w rq) := None) else retryCounters w)"
  by (auto simp: reset_retry_def Let_def fun_upd_idem_iff)

lemma reset_retry_frame:
  "ress (reset_retry w rq) = ress w" "timers (reset_retry w rq) = timers w"
  "reqs (reset_retry w rq) = reqs w" "calls (reset_retry w rq) = calls w"
  "closed (reset_retry w rq) = closed w"
  by (simp_all add: reset_retry_def Let_def)

lemma on_error_response:
  "\<not> closed w \<Longrightarrow> \<not> headersSent (ress w rs) \<Longrightarrow>
   ress (on_error w rq rs tg) rs =
     (ress w rs)\<lparr>statusCode := Some 500,
                 written := written (ress w rs) @
                   [WriteHead 500 [(''Content-Type'', ''text/plain'')],
                    End (Some ''Oops, something went wrong.'')]\<rparr>"
  by (simp add: on_error_def Let_def res_end_def res_writeHead_def)

lemma on_error_thrown:
  "\<not> closed w \<Longrightarrow> headersSent (ress w rs) \<Longrightarrow>
   ress (on_error w rq rs tg) = ress w
   \<and> uncaught (on_error w rq rs tg) = uncaught w @ [''ERR_HTTP_HEADERS_SENT'']"
  by (simp add: on_error_def Let_def)

lemma on_error_frame:
  "retryCounters (on_error w rq rs tg) = retryCounters w"
  "closed (on_error w rq rs tg) = closed w"
  "reqs (on_error w rq rs tg) = reqs w"
  "calls (on_error w rq rs tg) = calls w"
  by (simp_all add: on_error_def Let_def)

lemma on_error_timers:
  "timers (on_error w rq rs tg) =
     (if \<not> closed w \<and> tg \<noteq> None \<and> method (reqs w rq) = ''GET''
         \<and> (\<not> truthy_num (statusCode (ress w rs)) \<or> ge_500 (statusCode (ress w rs)))
         \<and> or_zero (retryCounters w (requestKey (reqs w rq))) < 20
      then timers w @
        [\<lparr>delay = or_zero (retryCounters w (requestKey (reqs w rq))) * 250,
          retryCounterKey = requestKey (reqs w rq),
          retryCount = or_zero (retryCounters w (requestKey (reqs w rq))),
          timer_req = rq, timer_res = rs\<rparr>]
      else timers w)"
  by (simp add: on_error_def Let_def)

lemma retry_ledger:
  "retryCounters (snd (retry e w tm)) =
     (retryCounters w)(retryCounterKey tm \<mapsto> retryCount tm + 1)"
  by (simp add: retry_def handleRequest_frame)

lemma retry_off_prefix:
  assumes "\<not> startsWith (url (reqs w (timer_req tm))) (KUBE_BASE e)"
  shows "\<exists>cs. calls (snd (retry e w tm)) = calls w @ cs
              \<and> (\<forall>a b t. ProxyWeb a b t \<notin> set cs)
              \<and> (\<forall>c r b. GetApiTarget c r b \<notin> set cs)"
    and "getClusterForRequest e (reqs w (timer_req tm)) = Some c
         \<Longrightarrow> ensureServer (contextHandler c) = Resolved ()
         \<Longrightarrow> calls (snd (retry e w tm)) =
               calls w @ [EnsureServer (contextHandler c),
                          RouterRoute c (timer_req tm) (timer_res tm)]"
  using assms
  by (auto simp: retry_def handleRequest_off_prefix split: option.splits awaited.splits)

text \<open>The dispatch of \<open>ex_api\<close>, evaluated.\<close>

lemma ex_api_dispatch:
  "handleRequest ex_env ex_api 0 1 =
     (Resolved (),
      ex_api\<lparr>reqs := (reqs ex_api)(0 :=
                \<lparr>method = ''GET'', headers = [''host'' \<mapsto> ''c1.localhost''],
                 url = ''/api/v1/pods?watch=1''\<rparr>),
             calls := [EnsureServer ex_handler,
                       GetApiTarget ex_handler
                         \<lparr>method = ''GET'', headers = [''host'' \<mapsto> ''c1.localhost''],
                          url = ''/api/v1/pods?watch=1''\<rparr> True,
                       ProxyWeb 0 1 ex_target]\<rparr>)"
  by (simp add: handleRequest_def getProxyTarget_def ex_api_def ex_defs startsWith_def Let_def
      fun_upd_twist)

lemma ex_api_dispatch_by_path:
  "handleRequest ex_env_by_path ex_api 0 1 =
     (Resolved (),
      ex_api\<lparr>reqs := (reqs ex_api)(0 :=
                \<lparr>method = ''GET'', headers = [''host'' \<mapsto> ''c1.localhost''],
                 url = ''/api/v1/pods?watch=1''\<rparr>),
             calls := [EnsureServer ex_handler,
                       GetApiTarget ex_handler
                         \<lparr>method = ''GET'', headers = [''host'' \<mapsto> ''c1.localhost''],
                          url = ''/api/v1/pods?watch=1''\<rparr> True,
                       ProxyWeb 0 1 ex_target]\<rparr>)"
  by (simp add: handleRequest_def getProxyTarget_def ex_api_def ex_env_by_path_def ex_defs
      startsWith_def Let_def fun_upd_twist)

section \<open>Retry and backoff\<close>

text \<open>
  C1. A GET whose forwarding fails while the server is not closed and a target was
  resolved, whose response has no status code or a status of 500 or more, and whose
  ledger count \<open>n\<close> (0 when the key is absent) is below 20: the error listener sets one
  timeout of \<open>n * 250\<close> ms for this request and response and leaves the ledger as it is.
  The closure of that timeout, whenever it runs, stores \<open>n + 1\<close> under the key and then
  dispatches this request and response again: it is \<open>handleRequest\<close> on them, run on
  the state with that ledger.
\<close>

theorem retry_scheduled:
  assumes "\<not> closed w" and "method (reqs w rq) = ''GET''"
    and "statusCode (ress w rs) = None \<or> (\<exists>c. statusCode (ress w rs) = Some c \<and> 500 \<le> c)"
    and "or_zero (retryCounters w (requestKey (reqs w rq))) < 20"
  shows "let key = requestKey (reqs w rq);
             n = or_zero (retryCounters w key);
             tm = \<lparr>delay = n * 250, retryCounterKey = key, retryCount = n,
                   timer_req = rq, timer_res = rs\<rparr>
         in timers (on_error w rq rs (Some t)) = timers w @ [tm]
          \<and> retryCounters (on_error w rq rs (Some t)) = retryCounters w
          \<and> (\<forall>e w'. retryCounters (snd (retry e w' tm)) = (retryCounters w')(key \<mapsto> n + 1))
          \<and> (\<forall>e w'. retry e w' tm =
                handleRequest e (w'\<lparr>retryCounters := (retryCounters w')(key \<mapsto> n + 1)\<rparr>) rq rs)"
proof -
  from assms(3)
  have "\<not> truthy_num (statusCode (ress w rs)) \<or> ge_500 (statusCode (ress w rs))"
    by (auto simp: truthy_num_def ge_500_def)
  with assms(1,2,4) show ?thesis
    by (simp add: Let_def on_error_timers on_error_frame retry_ledger) (simp add: retry_def)
qed

text \<open>
  With 3 retries counted and the status 503 the timeout is 750 ms; its closure stores 4
  and dispatches again, here to the readiness check and the router.
\<close>

theorem retry_scheduled_witness:
  "\<not> closed ex_unready \<and> method (reqs ex_unready 0) = ''GET''
   \<and> statusCode (ress ex_unready 1) = Some 503
   \<and> or_zero (retryCounters ex_unready (requestKey (reqs ex_unready 0))) = 3
   \<and> timers (on_error ex_unready 0 1 (Some ex_target)) =
       [\<lparr>delay = 750, retryCounterKey = ''c1.localhost/api/v1/pods'', retryCount = 3,
         timer_req = 0, timer_res = 1\<rparr>]
   \<and> retryCounters (on_error ex_unready 0 1 (Some ex_target)) ''c1.localhost/api/v1/pods''
       = Some 3
   \<and> retryCounters (snd (retry ex_env (on_error ex_unready 0 1 (Some ex_target))
        \<lparr>delay = 750, retryCounterKey = ''c1.localhost/api/v1/pods'', retryCount = 3,
         timer_req = 0, timer_res = 1\<rparr>)) ''c1.localhost/api/v1/pods'' = Some 4
   \<and> calls (snd (retry ex_env (on_error ex_unready 0 1 (Some ex_target))
        \<lparr>delay = 750, retryCounterKey = ''c1.localhost/api/v1/pods'', retryCount = 3,
         timer_req = 0, timer_res = 1\<rparr>)) =
       [EnsureServer ex_handler, RouterRoute ex_cluster 0 1]"
proof -
  let ?tm = "\<lparr>delay = 750, retryCounterKey = ''c1.localhost/api/v1/pods'', retryCount = 3,
         timer_req = 0, timer_res = 1\<rparr>"
  let ?w2 = "on_error ex_unready 0 1 (Some ex_target)"
  have h1: "\<not> closed ex_unready" and h2: "method (reqs ex_unready 0) = ''GET''"
    and s: "statusCode (ress ex_unready 1) = Some 503"
    and k: "requestKey (reqs ex_unready 0) = ''c1.localhost/api/v1/pods''"
    by (simp_all add: ex_unready_def ex_defs requestKey_def)
  from s have h3: "statusCode (ress ex_unready 1) = None
             \<or> (\<exists>c. statusCode (ress ex_unready 1) = Some c \<and> 500 \<le> c)"
    by simp
  have n: "or_zero (retryCounters ex_unready (requestKey (reqs ex_unready 0))) = 3"
    unfolding k by (simp add: ex_unready_def ex_defs or_zero_def truthy_num_def)
  then have h4: "or_zero (retryCounters ex_unready (requestKey (reqs ex_unready 0))) < 20"
    by simp
  have t0: "timers ex_unready = []"
    and r0: "retryCounters ex_unready ''c1.localhost/api/v1/pods'' = Some 3"
    by (simp_all add: ex_unready_def ex_defs)
  have off: "\<not> startsWith (url (reqs (?w2\<lparr>retryCounters :=
               (retryCounters ?w2)(''c1.localhost/api/v1/pods'' \<mapsto> 4)\<rparr>) 0)) (KUBE_BASE ex_env)"
    by (simp add: on_error_frame) (simp add: ex_unready_def ex_defs startsWith_def)
  have d: "calls (snd (handleRequest ex_env (?w2\<lparr>retryCounters :=
               (retryCounters ?w2)(''c1.localhost/api/v1/pods'' \<mapsto> 4)\<rparr>) 0 1)) =
           [EnsureServer ex_handler, RouterRoute ex_cluster 0 1]"
    unfolding handleRequest_off_prefix [OF off]
    by (simp add: on_error_frame ex_unready_def ex_defs)
  show ?thesis
    using retry_scheduled [OF h1 h2 h3 h4, of ex_target] h1 h2 s n k t0 r0 d
    by (simp add: Let_def handleRequest_frame)
qed

text \<open>
  C2, amended. A GET whose forwarding fails while the server is not closed, once its
  ledger count has reached 20: the error listener sets no timeout and leaves the ledger
  as it is, and when the head of the response is not out yet it writes the generic 500
  plain-text response. When the head is out, \<^verbatim>\<open>writeHead\<close> throws and the response
  stays as it was. The count cannot grow past 20: every timeout the listener ever sets
  carries a count below 20, and its closure stores that count plus 1.
\<close>

theorem retry_cap_open:
  assumes "\<not> closed w" and "method (reqs w rq) = ''GET''"
    and "20 \<le> or_zero (retryCounters w (requestKey (reqs w rq)))"
  shows "timers (on_error w rq rs tg) = timers w
       \<and> retryCounters (on_error w rq rs tg) = retryCounters w
       \<and> (\<not> headersSent (ress w rs) \<longrightarrow>
            written (ress (on_error w rq rs tg) rs) =
              [WriteHead 500 [(''Content-Type'', ''text/plain'')],
               End (Some ''Oops, something went wrong.'')]
            \<and> statusCode (ress (on_error w rq rs tg) rs) = Some 500
            \<and> uncaught (on_error w rq rs tg) = uncaught w)
       \<and> (headersSent (ress w rs) \<longrightarrow>
            ress (on_error w rq rs tg) = ress w
            \<and> uncaught (on_error w rq rs tg) = uncaught w @ [''ERR_HTTP_HEADERS_SENT''])
       \<and> (\<forall>w0 rq0 rs0 tg0 tm.
            tm \<in> set (timers (on_error w0 rq0 rs0 tg0)) \<and> tm \<notin> set (timers w0)
            \<longrightarrow> retryCount tm + 1 \<le> 20)"
proof -
  have cap: "retryCount tm + 1 \<le> 20"
    if "tm \<in> set (timers (on_error w0 rq0 rs0 tg0))" "tm \<notin> set (timers w0)"
    for w0 rq0 rs0 tg0 tm
    using that by (auto simp: on_error_timers split: if_splits)
  have sent: "\<not> headersSent (ress w rs) \<Longrightarrow> written (ress w rs) = []"
    by (simp add: headersSent_def)
  have quiet: "\<not> headersSent (ress w rs) \<Longrightarrow> uncaught (on_error w rq rs tg) = uncaught w"
    using assms(1) by (simp add: on_error_def Let_def)
  show ?thesis
    using assms cap sent quiet
    by (auto simp: on_error_timers on_error_response on_error_thrown on_error_frame)
qed

theorem retry_cap_open_witness:
  "\<not> closed ex_capped \<and> method (reqs ex_capped 0) = ''GET''
   \<and> or_zero (retryCounters ex_capped (requestKey (reqs ex_capped 0))) = 20
   \<and> \<not> headersSent (ress ex_capped 1)
   \<and> timers (on_error ex_capped 0 1 (Some ex_target)) = []
   \<and> written (ress (on_error ex_capped 0 1 (Some ex_target)) 1) =
       [WriteHead 500 [(''Content-Type'', ''text/plain'')],
        End (Some ''Oops, something went wrong.'')]
   \<and> retryCounters (on_error ex_capped 0 1 (Some ex_target)) ''c1.localhost/api/v1/pods''
       = Some 20"
proof -
  have h1: "\<not> closed ex_capped" and h2: "method (reqs ex_capped 0) = ''GET''"
    and k: "requestKey (reqs ex_capped 0) = ''c1.localhost/api/v1/pods''"
    and hs: "\<not> headersSent (ress ex_capped 1)"
    by (simp_all add: ex_capped_def ex_defs requestKey_def headersSent_def)
  have n: "or_zero (retryCounters ex_capped (requestKey (reqs ex_capped 0))) = 20"
    unfolding k by (simp add: ex_capped_def ex_defs or_zero_def truthy_num_def)
  then have h3: "20 \<le> or_zero (retryCounters ex_capped (requestKey (reqs ex_capped 0)))"
    by simp
  have i: "timers ex_capped = []"
    "retryCounters ex_capped ''c1.localhost/api/v1/pods'' = Some 20"
    by (simp_all add: ex_capped_def ex_defs)
  show ?thesis
    using retry_cap_open [OF h1 h2 h3, of 1 "Some ex_target"] h1 h2 n hs i by simp
qed

text \<open>
  C2 as stated has no condition on the server or on the response. After
  \<^verbatim>\<open>close()\<close> the listener returns at once: a GET with 20 counted gets no timeout
  and nothing is written to its response. On an open server, a GET with 20 counted whose
  response this listener has already ended gets no second 500: \<^verbatim>\<open>writeHead\<close> throws
  and the response stays as it was.
\<close>

theorem capped_but_closed_counterexample:
  "method (reqs ex_closed 0) = ''GET''
   \<and> retryCounters ex_closed (requestKey (reqs ex_closed 0)) = Some 20
   \<and> closed ex_closed
   \<and> timers (on_error ex_closed 0 1 (Some ex_target)) = []
   \<and> written (ress (on_error ex_closed 0 1 (Some ex_target)) 1) = []
   \<and> method (reqs ex_capped_sent 0) = ''GET''
   \<and> retryCounters ex_capped_sent (requestKey (reqs ex_capped_sent 0)) = Some 20
   \<and> \<not> closed ex_capped_sent
   \<and> timers (on_error ex_capped_sent 0 1 (Some ex_target)) = []
   \<and> ress (on_error ex_capped_sent 0 1 (Some ex_target)) 1 = ress ex_capped_sent 1
   \<and> uncaught (on_error ex_capped_sent 0 1 (Some ex_target)) = [''ERR_HTTP_HEADERS_SENT'']"
  by (simp add: ex_closed_def ex_capped_sent_def ex_capped_def close_def ex_defs requestKey_def
      on_error_def headersSent_def or_zero_def truthy_num_def ge_500_def)

text \<open>
  C3. The claim, with the spec, gives the response to the scheduled retry: when a retry
  is scheduled, the error listener is not to write the generic 500 to the original
  response. The listener does write it. Whenever it sets the timeout (open server, GET,
  target resolved, no status or a status of 500 or more, count below 20) and the head
  of the response is not out, it goes on, in the same run, to write the generic 500 to
  that response and to end it; the retry it has scheduled is then dispatched on the
  response that was ended.
\<close>

theorem retry_response_ended:
  assumes "\<not> closed w" and "method (reqs w rq) = ''GET''"
    and "statusCode (ress w rs) = None \<or> (\<exists>c. statusCode (ress w rs) = Some c \<and> 500 \<le> c)"
    and "or_zero (retryCounters w (requestKey (reqs w rq))) < 20"
    and "\<not> headersSent (ress w rs)"
  shows "let w' = on_error w rq rs (Some t)
         in (\<exists>tm. timers w' = timers w @ [tm] \<and> timer_req tm = rq \<and> timer_res tm = rs
               \<and> (\<forall>e. retry e w' tm =
                     handleRequest e
                       (w'\<lparr>retryCounters :=
                            (retryCounters w')(retryCounterKey tm \<mapsto> retryCount tm + 1)\<rparr>)
                       rq rs))
          \<and> written (ress w' rs) =
              [WriteHead 500 [(''Content-Type'', ''text/plain'')],
               End (Some ''Oops, something went wrong.'')]
          \<and> statusCode (ress w' rs) = Some 500"
proof -
  from assms(3)
  have "\<not> truthy_num (statusCode (ress w rs)) \<or> ge_500 (statusCode (ress w rs))"
    by (auto simp: truthy_num_def ge_500_def)
  moreover from assms(5) have "written (ress w rs) = []"
    by (simp add: headersSent_def)
  ultimately show ?thesis
    using assms(1,2,4,5)
    by (simp add: Let_def on_error_timers on_error_response) (simp add: retry_def)
qed

text \<open>
  The first failure of a GET whose response has the status 503 and no head out: the
  timeout is set and the response is ended with the generic 500.
\<close>

theorem retry_response_ended_witness:
  "\<not> closed ex_first \<and> method (reqs ex_first 0) = ''GET''
   \<and> statusCode (ress ex_first 1) = Some 503
   \<and> \<not> headersSent (ress ex_first 1)
   \<and> timers (on_error ex_first 0 1 (Some ex_target)) =
       [\<lparr>delay = 0, retryCounterKey = ''c1.localhost/api/v1/pods'', retryCount = 0,
         timer_req = 0, timer_res = 1\<rparr>]
   \<and> written (ress (on_error ex_first 0 1 (Some ex_target)) 1) =
       [WriteHead 500 [(''Content-Type'', ''text/plain'')],
        End (Some ''Oops, something went wrong.'')]
   \<and> statusCode (ress (on_error ex_first 0 1 (Some ex_target)) 1) = Some 500"
proof -
  have h1: "\<not> closed ex_first" and h2: "method (reqs ex_first 0) = ''GET''"
    and s: "statusCode (ress ex_first 1) = Some 503"
    and h5: "\<not> headersSent (ress ex_first 1)"
    and k: "requestKey (reqs ex_first 0) = ''c1.localhost/api/v1/pods''"
    by (simp_all add: ex_first_def ex_defs requestKey_def headersSent_def)
  from s have h3: "statusCode (ress ex_first 1) = None
             \<or> (\<exists>c. statusCode (ress ex_first 1) = Some c \<and> 500 \<le> c)"
    by simp
  have n: "or_zero (retryCounters ex_first (requestKey (reqs ex_first 0))) = 0"
    unfolding k by (simp add: ex_first_def ex_defs or_zero_def truthy_num_def)
  then have h4: "or_zero (retryCounters ex_first (requestKey (reqs ex_first 0))) < 20"
    by simp
  have t: "timers (on_error ex_first 0 1 (Some ex_target)) =
       [\<lparr>delay = 0, retryCounterKey = ''c1.localhost/api/v1/pods'', retryCount = 0,
         timer_req = 0, timer_res = 1\<rparr>]"
    using h1 h2 s n k
    by (simp add: on_error_timers ge_500_def) (simp add: ex_first_def ex_defs)
  show ?thesis
    using retry_response_ended [OF h1 h2 h3 h4 h5, of ex_target] h1 h2 s h5 t
    by (simp add: Let_def)
qed

section \<open>The ledger and the response listener\<close>

text \<open>
  C4, amended. The response listener removes the ledger entry of the request's key
  exactly when the request is a GET and the listener has not answered with the custom
  message of a 502; for every other method, and for a 502 whose cluster has a custom
  message, it leaves the ledger as it is.
\<close>

theorem ledger_reset_on_response:
  "retryCounters (on_proxyRes e w st rq rs) =
     (if method (reqs w rq) = ''GET''
         \<and> \<not> (st = 502 \<and> (\<exists>cl. getClusterForRequest e (reqs w rq) = Some cl
                              \<and> truthy_str (proxyServerError (contextHandler cl))))
      then (retryCounters w)(requestKey (reqs w rq) := None)
      else retryCounters w)"
  by (auto simp: on_proxyRes_def reset_retry_ledger split: option.splits)

theorem ledger_reset_on_response_witness:
  "retryCounters ex_failing ''c1.localhost/api/v1/pods'' = Some 3
   \<and> retryCounters (on_proxyRes ex_env ex_failing 200 0 1) ''c1.localhost/api/v1/pods'' = None
   \<and> retryCounters (on_proxyRes ex_env ex_failing 503 0 1) ''c1.localhost/api/v1/pods'' = None"
  using ledger_reset_on_response [of ex_env ex_failing 200 0 1]
    ledger_reset_on_response [of ex_env ex_failing 503 0 1]
  by (simp add: ex_failing_def ex_defs requestKey_def)

text \<open>
  C4 as stated covers every delivered response. The entry stays after a response to a
  POST on the same key, and after a 502 to a GET whose cluster has a custom message.
\<close>

theorem ledger_kept_counterexample:
  "retryCounters ex_post (requestKey (reqs ex_post 0)) = Some 3
   \<and> retryCounters (on_proxyRes ex_env ex_post 200 0 1) (requestKey (reqs ex_post 0)) = Some 3
   \<and> retryCounters ex_failing (requestKey (reqs ex_failing 0)) = Some 3
   \<and> method (reqs ex_failing 0) = ''GET''
   \<and> retryCounters (on_proxyRes ex_env ex_failing 502 0 1) (requestKey (reqs ex_failing 0))
       = Some 3"
  by (simp add: ex_post_def ex_failing_def ex_defs requestKey_def on_proxyRes_def
      reset_retry_def truthy_str_def)

text \<open>
  C5. For a request that is not a GET, the response listener, the error listener and
  dispatch neither read nor write the ledger: run on any other ledger \<open>m\<close> they do
  the same and hand \<open>m\<close> back, they leave the ledger they were given as it is, and
  they set no timeout (the only writer of counts).
\<close>

theorem non_get_ledger_untouched:
  assumes "method (reqs w rq) \<noteq> ''GET''"
  shows "on_proxyRes e (w\<lparr>retryCounters := m\<rparr>) st rq rs
           = (on_proxyRes e w st rq rs)\<lparr>retryCounters := m\<rparr>
       \<and> on_error (w\<lparr>retryCounters := m\<rparr>) rq rs tg
           = (on_error w rq rs tg)\<lparr>retryCounters := m\<rparr>
       \<and> handleRequest e (w\<lparr>retryCounters := m\<rparr>) rq rs
           = (fst (handleRequest e w rq rs),
              (snd (handleRequest e w rq rs))\<lparr>retryCounters := m\<rparr>)
       \<and> retryCounters (on_proxyRes e w st rq rs) = retryCounters w
       \<and> retryCounters (on_error w rq rs tg) = retryCounters w
       \<and> retryCounters (snd (handleRequest e w rq rs)) = retryCounters w
       \<and> timers (on_proxyRes e w st rq rs) = timers w
       \<and> timers (on_error w rq rs tg) = timers w
       \<and> timers (snd (handleRequest e w rq rs)) = timers w"
proof -
  have 1: "on_proxyRes e (w\<lparr>retryCounters := m\<rparr>) st rq rs
           = (on_proxyRes e w st rq rs)\<lparr>retryCounters := m\<rparr>"
    using assms by (simp add: on_proxyRes_def reset_retry_def split: option.splits)
  have 2: "on_error (w\<lparr>retryCounters := m\<rparr>) rq rs tg
           = (on_error w rq rs tg)\<lparr>retryCounters := m\<rparr>"
    using assms by (simp add: on_error_def Let_def)
  have 3: "handleRequest e (w\<lparr>retryCounters := m\<rparr>) rq rs
           = (fst (handleRequest e w rq rs),
              (snd (handleRequest e w rq rs))\<lparr>retryCounters := m\<rparr>)"
    by (simp add: handleRequest_def getProxyTarget_def Let_def
        split: option.splits awaited.splits prod.splits)
  have 4: "retryCounters (on_proxyRes e w st rq rs) = retryCounters w"
    using assms by (simp add: on_proxyRes_def reset_retry_def split: option.splits)
  have 5: "timers (on_proxyRes e w st rq rs) = timers w"
    by (simp add: on_proxyRes_def reset_retry_frame split: option.splits)
  have 6: "timers (on_error w rq rs tg) = timers w"
    using assms by (simp add: on_error_timers)
  show ?thesis
    using 1 2 3 4 5 6 by (simp add: on_error_frame handleRequest_frame)
qed

theorem non_get_ledger_untouched_witness:
  "method (reqs ex_post 0) \<noteq> ''GET''
   \<and> retryCounters (on_proxyRes ex_env ex_post 200 0 1) ''c1.localhost/api/v1/pods'' = Some 3
   \<and> retryCounters (on_error ex_post 0 1 (Some ex_target)) ''c1.localhost/api/v1/pods'' = Some 3
   \<and> retryCounters (snd (handleRequest ex_env ex_post 0 1)) ''c1.localhost/api/v1/pods'' = Some 3
   \<and> timers (on_error ex_post 0 1 (Some ex_target)) = []
   \<and> on_error (ex_post\<lparr>retryCounters := Map.empty\<rparr>) 0 1 (Some ex_target) =
       (on_error ex_post 0 1 (Some ex_target))\<lparr>retryCounters := Map.empty\<rparr>"
proof -
  have h: "method (reqs ex_post 0) \<noteq> ''GET''"
    and i: "retryCounters ex_post ''c1.localhost/api/v1/pods'' = Some 3" "timers ex_post = []"
    by (simp_all add: ex_post_def ex_defs)
  show ?thesis
    using non_get_ledger_untouched [OF h, of ex_env Map.empty 200 1 "Some ex_target"] h i
    by simp
qed

section \<open>Dispatch and target resolution\<close>

text \<open>
  C6. When the registry lookup finds no Cluster Context for the request, dispatch sets
  the status 503 and ends the response with no body, calls no collaborator (no
  readiness check, no target resolution, no proxying, no routing) and leaves the
  ledger, the pending timeouts and the request as they are.
\<close>

theorem unknown_cluster_503:
  assumes "getClusterForRequest e (reqs w rq) = None"
  shows "handleRequest e w rq rs =
           (Resolved (),
            w\<lparr>ress := (ress w)(rs :=
               (ress w rs)\<lparr>statusCode := Some 503,
                           written := written (ress w rs) @ [End None]\<rparr>)\<rparr>)
       \<and> calls (snd (handleRequest e w rq rs)) = calls w
       \<and> retryCounters (snd (handleRequest e w rq rs)) = retryCounters w
       \<and> timers (snd (handleRequest e w rq rs)) = timers w
       \<and> reqs (snd (handleRequest e w rq rs)) = reqs w"
  using assms by (simp add: handleRequest_def res_end_def)

theorem unknown_cluster_503_witness:
  "getClusterForRequest ex_env (reqs ex_unknown 0) = None
   \<and> fst (handleRequest ex_env ex_unknown 0 1) = Resolved ()
   \<and> statusCode (ress (snd (handleRequest ex_env ex_unknown 0 1)) 1) = Some 503
   \<and> written (ress (snd (handleRequest ex_env ex_unknown 0 1)) 1) = [End None]
   \<and> calls (snd (handleRequest ex_env ex_unknown 0 1)) = []
   \<and> retryCounters (snd (handleRequest ex_env ex_unknown 0 1))
        ''nowhere.localhost/app/dashboard'' = Some 3"
proof -
  have h: "getClusterForRequest ex_env (reqs ex_unknown 0) = None"
    by (simp add: ex_unknown_def ex_defs)
  show ?thesis
    using h unknown_cluster_503 [OF h, of 1] by (simp add: ex_unknown_def ex_defs)
qed

text \<open>
  C7. For a request whose url starts with the API prefix, target resolution deletes the
  authorization header and nothing else of the headers, takes the prefix off the front
  of the url, and then asks the Context Handler once: the request is already rewritten
  when \<open>getApiTarget\<close> is called, and the flag it is called with is true exactly when
  the rewritten url has \<open>watch=\<close> as a substring. What the Context Handler answers is
  what target resolution returns.
\<close>

theorem api_prefix_rewrite:
  assumes "startsWith (url (reqs w rq)) (KUBE_BASE e)"
  shows "let w' = snd (getProxyTarget e w rq ch);
             req' = reqs w' rq;
             watch = (\<exists>a b. url req' = a @ ''watch='' @ b)
         in headers req' = (headers (reqs w rq))(''authorization'' := None)
          \<and> url (reqs w rq) = KUBE_BASE e @ url req'
          \<and> method req' = method (reqs w rq)
          \<and> calls w' = calls w @ [GetApiTarget ch req' watch]
          \<and> fst (getProxyTarget e w rq ch) =
              (case getApiTarget ch watch of
                 Resolved t \<Rightarrow> Resolved (Some t) | Rejected err \<Rightarrow> Rejected err)"
proof -
  from assms obtain t where t: "url (reqs w rq) = KUBE_BASE e @ t"
    by (auto simp: startsWith_iff)
  show ?thesis
    using t by (simp add: getProxyTarget_on_prefix [OF assms] Let_def str_includes_iff)
qed

theorem api_prefix_rewrite_witness:
  "startsWith (url (reqs ex_api 0)) (KUBE_BASE ex_env)
   \<and> headers (reqs ex_api 0) ''authorization'' = Some ''Bearer t''
   \<and> headers (reqs (snd (getProxyTarget ex_env ex_api 0 ex_handler)) 0) ''authorization'' = None
   \<and> url (reqs (snd (getProxyTarget ex_env ex_api 0 ex_handler)) 0) = ''/api/v1/pods?watch=1''
   \<and> calls (snd (getProxyTarget ex_env ex_api 0 ex_handler)) =
       [GetApiTarget ex_handler (reqs (snd (getProxyTarget ex_env ex_api 0 ex_handler)) 0) True]
   \<and> fst (getProxyTarget ex_env ex_api 0 ex_handler) = Resolved (Some ex_target)"
proof -
  have h: "startsWith (url (reqs ex_api 0)) (KUBE_BASE ex_env)"
    by (simp add: ex_api_def ex_defs startsWith_def)
  have u: "url (reqs ex_api 0) = ''/api-kube/api/v1/pods?watch=1''"
    and k: "KUBE_BASE ex_env = ''/api-kube''"
    and a: "headers (reqs ex_api 0) ''authorization'' = Some ''Bearer t''"
    and c: "calls ex_api = []"
    and g: "getApiTarget ex_handler = (\<lambda>_. Resolved ex_target)"
    by (simp_all add: ex_api_def ex_defs)
  have i: "\<exists>a b. ''/api/v1/pods?watch=1'' = a @ ''watch='' @ b"
    using str_includes_iff [of "''/api/v1/pods?watch=1''" "''watch=''"]
    by (simp add: startsWith_def)
  show ?thesis
    using api_prefix_rewrite [OF h, of ex_handler] h i
    by (simp add: Let_def u k a c g)
qed

text \<open>
  C8, amended. For a request whose url does not start with the API prefix, target
  resolution yields no target and leaves everything as it is, and dispatch never asks
  the Context Handler for a target nor forwards through the proxy transport; when the
  registry lookup yields a Cluster Context whose readiness check succeeds, dispatch
  hands the request to the internal router's \<open>route(cluster, req, res)\<close>.
\<close>

theorem off_prefix_routed:
  assumes "\<not> startsWith (url (reqs w rq)) (KUBE_BASE e)"
  shows "getProxyTarget e w rq ch = (Resolved None, w)
       \<and> (\<forall>c. getClusterForRequest e (reqs w rq) = Some c
               \<and> ensureServer (contextHandler c) = Resolved ()
            \<longrightarrow> handleRequest e w rq rs =
                  (Resolved (), w\<lparr>calls := calls w @ [EnsureServer (contextHandler c), RouterRoute c rq rs]\<rparr>))
       \<and> (\<exists>cs. calls (snd (handleRequest e w rq rs)) = calls w @ cs
              \<and> (\<forall>a b t. ProxyWeb a b t \<notin> set cs)
              \<and> (\<forall>c r b. GetApiTarget c r b \<notin> set cs))"
  using assms
  by (auto simp: getProxyTarget_off_prefix handleRequest_off_prefix
      split: option.splits awaited.splits)

theorem off_prefix_routed_witness:
  "\<not> startsWith (url (reqs ex_app 0)) (KUBE_BASE ex_env)
   \<and> getClusterForRequest ex_env (reqs ex_app 0) = Some ex_cluster
   \<and> ensureServer (contextHandler ex_cluster) = Resolved ()
   \<and> getProxyTarget ex_env ex_app 0 ex_handler = (Resolved None, ex_app)
   \<and> fst (handleRequest ex_env ex_app 0 1) = Resolved ()
   \<and> calls (snd (handleRequest ex_env ex_app 0 1)) =
       [EnsureServer ex_handler, RouterRoute ex_cluster 0 1]"
proof -
  have h: "\<not> startsWith (url (reqs ex_app 0)) (KUBE_BASE ex_env)"
    by (simp add: ex_app_def ex_defs startsWith_def)
  have c: "getClusterForRequest ex_env (reqs ex_app 0) = Some ex_cluster"
    and r: "ensureServer (contextHandler ex_cluster) = Resolved ()"
    and i: "calls ex_app = []"
    by (simp_all add: ex_app_def ex_defs)
  show ?thesis
    using off_prefix_routed [OF h, of ex_handler 1] h c r i
    by (simp add: ex_cluster_def)
qed

text \<open>
  C8 as stated hands every request off the prefix to the router. For an unknown host
  dispatch answers 503 and calls nothing, the router included.
\<close>

theorem off_prefix_unknown_counterexample:
  "\<not> startsWith (url (reqs ex_unknown 0)) (KUBE_BASE ex_env)
   \<and> calls (snd (handleRequest ex_env ex_unknown 0 1)) = []
   \<and> statusCode (ress (snd (handleRequest ex_env ex_unknown 0 1)) 1) = Some 503
   \<and> written (ress (snd (handleRequest ex_env ex_unknown 0 1)) 1) = [End None]"
  by (simp add: ex_unknown_def ex_defs startsWith_def handleRequest_def res_end_def)



section \<open>The retry runs on the rewritten request\<close>

text \<open>
  C10, amended. Target resolution rewrites the url of the request object, so it is not
  idempotent: for a request whose url starts with the API prefix and whose url without
  the prefix does not, a second resolution on the same object yields no target and
  changes nothing. After a dispatch that reached target resolution, every timeout the
  error listener sets holds this rewritten request; the retry it runs never asks the
  Context Handler for a target and never forwards through the proxy transport, and when
  the registry lookup on the rewritten request yields a Cluster Context whose readiness
  check succeeds, the retry hands the request to the internal router.
\<close>

theorem retry_loses_target:
  assumes "startsWith (url (reqs w rq)) (KUBE_BASE e)"
    and "\<not> startsWith (drop (length (KUBE_BASE e)) (url (reqs w rq))) (KUBE_BASE e)"
  shows "getProxyTarget e (snd (getProxyTarget e w rq ch)) rq ch' =
           (Resolved None, snd (getProxyTarget e w rq ch))
       \<and> (getClusterForRequest e (reqs w rq) = Some cl
            \<and> ensureServer (contextHandler cl) = Resolved ()
          \<longrightarrow> (let w1 = snd (handleRequest e w rq rs); w2 = on_error w1 rq rs tg
               in \<forall>tm. tm \<in> set (timers w2) \<and> tm \<notin> set (timers w1)
                  \<longrightarrow> (\<exists>cs. calls (snd (retry e w2 tm)) = calls w2 @ cs
                           \<and> (\<forall>a b t. ProxyWeb a b t \<notin> set cs)
                           \<and> (\<forall>c r b. GetApiTarget c r b \<notin> set cs))
                    \<and> (\<forall>c. getClusterForRequest e (reqs w2 rq) = Some c
                            \<and> ensureServer (contextHandler c) = Resolved ()
                         \<longrightarrow> calls (snd (retry e w2 tm)) =
                               calls w2 @ [EnsureServer (contextHandler c), RouterRoute c rq rs])))"
proof -
  let ?w1 = "snd (handleRequest e w rq rs)"
  let ?w2 = "on_error ?w1 rq rs tg"
  have again: "getProxyTarget e (snd (getProxyTarget e w rq ch)) rq ch' =
           (Resolved None, snd (getProxyTarget e w rq ch))"
    using assms
    by (intro getProxyTarget_off_prefix) (simp add: getProxyTarget_on_prefix Let_def)
  have no_forward: "\<exists>cs. calls (snd (retry e ?w2 tm)) = calls ?w2 @ cs
                         \<and> (\<forall>a b t. ProxyWeb a b t \<notin> set cs)
                         \<and> (\<forall>c r b. GetApiTarget c r b \<notin> set cs)"
    and routed: "\<And>c. getClusterForRequest e (reqs ?w2 rq) = Some c
                 \<Longrightarrow> ensureServer (contextHandler c) = Resolved ()
                 \<Longrightarrow> calls (snd (retry e ?w2 tm)) =
                       calls ?w2 @ [EnsureServer (contextHandler c), RouterRoute c rq rs]"
    if cl: "getClusterForRequest e (reqs w rq) = Some cl"
       "ensureServer (contextHandler cl) = Resolved ()"
      and tm: "tm \<in> set (timers ?w2)" "tm \<notin> set (timers ?w1)" for tm
  proof -
    from tm have r: "timer_req tm = rq" "timer_res tm = rs"
      by (auto simp: on_error_timers split: if_splits)
    have "url (reqs ?w2 rq) = drop (length (KUBE_BASE e)) (url (reqs w rq))"
      by (simp add: on_error_frame handleRequest_on_prefix [OF assms(1) cl])
    with assms(2) have off: "\<not> startsWith (url (reqs ?w2 (timer_req tm))) (KUBE_BASE e)"
      by (simp add: r)
    show "\<exists>cs. calls (snd (retry e ?w2 tm)) = calls ?w2 @ cs
                         \<and> (\<forall>a b t. ProxyWeb a b t \<notin> set cs)
                         \<and> (\<forall>c r b. GetApiTarget c r b \<notin> set cs)"
      by (rule retry_off_prefix(1) [OF off])
    show "calls (snd (retry e ?w2 tm)) = calls ?w2 @ [EnsureServer (contextHandler c), RouterRoute c rq rs]"
      if "getClusterForRequest e (reqs ?w2 rq) = Some c"
        "ensureServer (contextHandler c) = Resolved ()" for c
      using retry_off_prefix(2) [OF off, of c] that by (simp add: r)
  qed
  show ?thesis
    unfolding Let_def using again no_forward routed by blast
qed

text \<open>
  The first failure of \<open>ex_api\<close>: the dispatch forwards, the error listener sets the
  timeout, and the retry goes to the router.
\<close>

theorem retry_loses_target_witness:
  "startsWith (url (reqs ex_api 0)) (KUBE_BASE ex_env)
   \<and> \<not> startsWith (drop (length (KUBE_BASE ex_env)) (url (reqs ex_api 0))) (KUBE_BASE ex_env)
   \<and> getClusterForRequest ex_env (reqs ex_api 0) = Some ex_cluster
   \<and> ensureServer (contextHandler ex_cluster) = Resolved ()
   \<and> timers (on_error (snd (handleRequest ex_env ex_api 0 1)) 0 1 (Some ex_target)) =
       [ex_retry_timer]
   \<and> calls (snd (retry ex_env
        (on_error (snd (handleRequest ex_env ex_api 0 1)) 0 1 (Some ex_target)) ex_retry_timer)) =
       calls (snd (handleRequest ex_env ex_api 0 1)) @
         [EnsureServer ex_handler, RouterRoute ex_cluster 0 1]"
proof -
  let ?w1 = "snd (handleRequest ex_env ex_api 0 1)"
  let ?w2 = "on_error ?w1 0 1 (Some ex_target)"
  have h1: "startsWith (url (reqs ex_api 0)) (KUBE_BASE ex_env)"
    and h2: "\<not> startsWith (drop (length (KUBE_BASE ex_env)) (url (reqs ex_api 0)))
               (KUBE_BASE ex_env)"
    by (simp_all add: ex_api_def ex_defs startsWith_def)
  have c: "getClusterForRequest ex_env (reqs ex_api 0) = Some ex_cluster"
    and r: "ensureServer (contextHandler ex_cluster) = Resolved ()"
    by (simp_all add: ex_api_def ex_defs)
  have t1: "timers ?w1 = []"
    by (simp add: handleRequest_frame) (simp add: ex_api_def ex_defs)
  have t2: "timers ?w2 = [ex_retry_timer]"
    unfolding ex_api_dispatch
    by (simp add: on_error_timers requestKey_def or_zero_def truthy_num_def
        ex_retry_timer_def ex_api_def ex_defs)
  have c2: "getClusterForRequest ex_env (reqs ?w2 0) = Some ex_cluster"
    unfolding ex_api_dispatch
    by (simp add: on_error_frame ex_defs)
  have "calls (snd (retry ex_env ?w2 ex_retry_timer)) =
          calls ?w2 @ [EnsureServer ex_handler, RouterRoute ex_cluster 0 1]"
    using retry_loses_target [OF h1 h2, of ex_handler ex_handler ex_cluster 1 "Some ex_target"]
      c r c2 t1 t2
    by (simp add: Let_def ex_cluster_def)
  then show ?thesis
    using h1 h2 c r t2 by (simp add: on_error_frame)
qed

text \<open>
  C10 as stated sends every such retry to the router. With a registry that finds the
  cluster by the url, the rewritten request has no cluster: the dispatch forwards, the
  timeout is set, and the retry answers 503 on the response the error listener has
  ended, calling nothing.
\<close>

theorem retry_unrouted_counterexample:
  "startsWith (url (reqs ex_api 0)) (KUBE_BASE ex_env_by_path)
   \<and> \<not> startsWith (drop (length (KUBE_BASE ex_env_by_path)) (url (reqs ex_api 0)))
          (KUBE_BASE ex_env_by_path)
   \<and> calls (snd (handleRequest ex_env_by_path ex_api 0 1)) =
       [EnsureServer ex_handler,
        GetApiTarget ex_handler
          \<lparr>method = ''GET'', headers = [''host'' \<mapsto> ''c1.localhost''],
           url = ''/api/v1/pods?watch=1''\<rparr> True,
        ProxyWeb 0 1 ex_target]
   \<and> timers (on_error (snd (handleRequest ex_env_by_path ex_api 0 1)) 0 1 (Some ex_target)) =
       [ex_retry_timer]
   \<and> calls (snd (retry ex_env_by_path
        (on_error (snd (handleRequest ex_env_by_path ex_api 0 1)) 0 1 (Some ex_target))
        ex_retry_timer)) =
       calls (snd (handleRequest ex_env_by_path ex_api 0 1))
   \<and> written (ress (snd (retry ex_env_by_path
        (on_error (snd (handleRequest ex_env_by_path ex_api 0 1)) 0 1 (Some ex_target))
        ex_retry_timer)) 1) =
       [WriteHead 500 [(''Content-Type'', ''text/plain'')],
        End (Some ''Oops, something went wrong.''), End None]"
  unfolding ex_api_dispatch_by_path
  by (simp add: on_error_def retry_def handleRequest_def requestKey_def or_zero_def
      truthy_num_def ex_retry_timer_def res_end_def res_writeHead_def Let_def startsWith_def
      headersSent_def ex_api_def ex_env_by_path_def ex_defs)

end
